theory Spec2Isabelle
  imports Complex_Main "HOL-Library.Sublist"
begin

section \<open>The toolbar overflow fitter of \<open>src/poc1.tsx\<close>\<close>

text \<open>
  The component keeps a cache of the end coordinates of its rendered options
  (\<open>toolbar_options_x_coordinates_ref.current\<close>) and, on every window resize, publishes
  the leading options that fit into the wrapper's width through the state setter
  \<open>set_options_to_be_visible\<close>.

  JavaScript numbers are modelled as \<open>real\<close> (no rounding, no NaN among the stored
  values). The one place where the source meets a non-number is an array read beyond the
  array's length, which gives \<open>undefined\<close>; that read is \<open>None\<close> here, and a relational
  comparison with it is false, as it is in JavaScript (\<open>undefined\<close> converts to NaN).
\<close>

subsection \<open>Data\<close>

text \<open>
  \<open>BulkActionOptionProps\<close>: only the \<open>children\<close> field is read by the source. An absent
  field is \<open>None\<close>; a present array, also an empty one, is truthy in JavaScript.
\<close>

datatype bulk_option =
  BulkOption (label: string) (children: "bulk_option list option")

text \<open>The two fields of a \<open>DOMRect\<close> that the layout effect reads.\<close>

record rect =
  rect_x :: real
  rect_width :: real

text \<open>
  The value held by \<open>toolbar_options_x_coordinates_ref.current\<close>: an array of numbers, or
  \<open>undefined\<close> for a reference that was never initialised. Reading a property of
  \<open>undefined\<close> raises a \<open>TypeError\<close>.
\<close>

datatype ref_current = Undefined | Array "real list"

datatype js_error = TypeError

datatype console_call =
  ConsoleError string
  | ConsoleWarn string "int list"

text \<open>
  What the component receives from its caller: the options, the limit
  \<open>MAX_OPTIONS_TO_DISPLAY\<close> and the constant \<open>MIN_GAP_BETWEEN_SCREEN_AND_LAST_ICON\<close>, whose
  value is declared outside the source at hand and is therefore a parameter.
\<close>

record props =
  options :: "bulk_option list"
  MAX_OPTIONS_TO_DISPLAY :: int
  MIN_GAP_BETWEEN_SCREEN_AND_LAST_ICON :: real

text \<open>
  What the browser answers when asked: \<open>window.innerWidth\<close>; the \<open>clientWidth\<close> of the
  element bound to \<open>wrapper_ref\<close>, \<open>None\<close> when \<open>wrapper_ref?.current\<close> is falsy; the bounding
  rectangles of the children of the element bound to \<open>toolbar_options_ref\<close>, \<open>None\<close> when
  that reference is unbound.
\<close>

record dom =
  window_innerWidth :: real
  wrapper_ref :: "real option"
  toolbar_options_ref :: "rect list option"

text \<open>The mutable parts: the coordinate cache, the React state and the console.\<close>

record component =
  toolbar_options_x_coordinates_ref :: ref_current
  options_to_be_visible :: "bulk_option list"
  console :: "console_call list"

subsection \<open>JavaScript primitives used by the source\<close>

text \<open>\<open>xs[i]\<close>: \<open>undefined\<close> (here \<open>None\<close>) beyond the length, no exception.\<close>

definition js_index :: "real list \<Rightarrow> nat \<Rightarrow> real option" where
  "js_index xs i = (if i < length xs then Some (xs ! i) else None)"

text \<open>\<open>v >= b\<close> where \<open>v\<close> may be \<open>undefined\<close>.\<close>

definition js_ge :: "real option \<Rightarrow> real \<Rightarrow> bool" where
  "js_ge v b = (case v of None \<Rightarrow> False | Some a \<Rightarrow> b \<le> a)"

text \<open>
  \<open>Array.prototype.some\<close> with the callback's index argument: left to right, stopping at
  the first \<open>true\<close>; an exception of the callback ends the iteration.
\<close>

fun array_some :: "('a \<Rightarrow> nat \<Rightarrow> js_error + bool) \<Rightarrow> nat \<Rightarrow> 'a list \<Rightarrow> js_error + bool" where
  "array_some f index [] = Inr False"
| "array_some f index (v # vs) =
     (case f v index of
        Inl e \<Rightarrow> Inl e
      | Inr True \<Rightarrow> Inr True
      | Inr False \<Rightarrow> array_some f (Suc index) vs)"

subsection \<open>\<open>is_child_reached\<close> (lines 11 to 22)\<close>

text \<open>The callback handed to \<open>options.some\<close>, lines 13 to 19.\<close>

definition child_reached_at ::
  "props \<Rightarrow> ref_current \<Rightarrow> real \<Rightarrow> bulk_option \<Rightarrow> nat \<Rightarrow> js_error + bool" where
  "child_reached_at p cur wrapper_width option index =
     (if children option = None then Inr False
      else (case cur of
              Undefined \<Rightarrow> Inl TypeError
            | Array xs \<Rightarrow>
                Inr (js_ge (js_index xs index)
                       (wrapper_width - MIN_GAP_BETWEEN_SCREEN_AND_LAST_ICON p))))"

definition is_child_reached :: "props \<Rightarrow> ref_current \<Rightarrow> real \<Rightarrow> js_error + bool" where
  "is_child_reached p cur wrapper_width =
     array_some (child_reached_at p cur wrapper_width) 0 (options p)"

subsection \<open>\<open>update_display_options_on_window_resize\<close> (lines 34 to 62)\<close>

text \<open>
  The \<open>for\<close> loop of lines 55 to 59. \<open>{ ...options[index] }\<close> is a shallow copy, equal as a
  value to the option it copies.
\<close>

function select_options ::
  "props \<Rightarrow> nat \<Rightarrow> nat \<Rightarrow> bulk_option list \<Rightarrow> bulk_option list" where
  "select_options p display_options_count index selected_options =
     (if index < display_options_count then
        (if MAX_OPTIONS_TO_DISPLAY p \<le> int index \<or> length (options p) \<le> index
         then selected_options
         else select_options p display_options_count (Suc index)
                (selected_options @ [options p ! index]))
      else selected_options)"
  by pat_completeness auto
termination
  by (relation "measure (\<lambda>(p, display_options_count, index, selected_options).
        display_options_count - index)") auto

declare select_options.simps [simp del]

text \<open>Lines 37 to 41: the wrapper's width, or the window's.\<close>

definition wrapper_width_of :: "dom \<Rightarrow> real" where
  "wrapper_width_of d =
     (case wrapper_ref d of
        Some clientWidth \<Rightarrow> clientWidth
      | None \<Rightarrow> window_innerWidth d)"

text \<open>Lines 49 to 52: how many cached end points lie within the width.\<close>

definition display_options_count :: "props \<Rightarrow> real list \<Rightarrow> real \<Rightarrow> nat" where
  "display_options_count p xs wrapper_width =
     length (filter (\<lambda>x_end_point. x_end_point \<le>
       wrapper_width - MIN_GAP_BETWEEN_SCREEN_AND_LAST_ICON p) xs)"

text \<open>
  Lines 43 to 61 at a given \<open>wrapper_width\<close>. The result is what the pass hands to
  \<open>set_options_to_be_visible\<close>: \<open>Some selected_options\<close> when the setter is called, \<open>None\<close>
  when the function returns at line 45 without calling it.
\<close>

definition fit_pass ::
  "props \<Rightarrow> ref_current \<Rightarrow> real \<Rightarrow> js_error + bulk_option list option" where
  "fit_pass p cur wrapper_width =
     (case is_child_reached p cur wrapper_width of
        Inl e \<Rightarrow> Inl e
      | Inr True \<Rightarrow> Inr None
      | Inr False \<Rightarrow>
          (case cur of
             Undefined \<Rightarrow> Inl TypeError
           | Array xs \<Rightarrow>
               Inr (Some (select_options p (display_options_count p xs wrapper_width) 0 []))))"

definition update_display_options_on_window_resize ::
  "props \<Rightarrow> dom \<Rightarrow> ref_current \<Rightarrow> js_error + bulk_option list option" where
  "update_display_options_on_window_resize p d cur = fit_pass p cur (wrapper_width_of d)"

text \<open>The resize listener's effect on the component: the setter replaces the state.\<close>

definition on_resize :: "props \<Rightarrow> dom \<Rightarrow> component \<Rightarrow> js_error + component" where
  "on_resize p d s =
     (case update_display_options_on_window_resize p d (toolbar_options_x_coordinates_ref s) of
        Inl e \<Rightarrow> Inl e
      | Inr None \<Rightarrow> Inr s
      | Inr (Some selected_options) \<Rightarrow> Inr (s\<lparr>options_to_be_visible := selected_options\<rparr>))"

subsection \<open>The layout effect (lines 72 to 94)\<close>

text \<open>
  The \<open>map\<close> of lines 81 to 88. Its callback assigns the captured variable \<open>first_x\<close> at
  index 0, so \<open>first_x\<close> is threaded through the iteration.
\<close>

fun map_end_points :: "real \<Rightarrow> nat \<Rightarrow> real \<Rightarrow> rect list \<Rightarrow> real list" where
  "map_end_points gap index first_x [] = []"
| "map_end_points gap index first_x (r # rs) =
     (let first_x' = (if index = 0 then rect_x r else first_x)
      in (rect_x r + rect_width r - first_x' + gap)
           # map_end_points gap (Suc index) first_x' rs)"

text \<open>Lines 73 to 88: \<open>first_x\<close> starts at 0; an unbound reference gives \<open>[]\<close>.\<close>

definition client_rects_end_point :: "props \<Rightarrow> dom \<Rightarrow> real list" where
  "client_rects_end_point p d =
     (case toolbar_options_ref d of
        None \<Rightarrow> []
      | Some option_elements \<Rightarrow>
          map_end_points (MIN_GAP_BETWEEN_SCREEN_AND_LAST_ICON p) 0 0 option_elements)"

text \<open>Lines 90 to 93: the cache is written when its length is 0.\<close>

definition layout_effect :: "props \<Rightarrow> dom \<Rightarrow> component \<Rightarrow> js_error + component" where
  "layout_effect p d s =
     (case toolbar_options_x_coordinates_ref s of
        Undefined \<Rightarrow> Inl TypeError
      | Array xs \<Rightarrow>
          (if length xs = 0
           then Inr (s\<lparr>toolbar_options_x_coordinates_ref := Array (client_rects_end_point p d)\<rparr>)
           else Inr s))"

subsection \<open>The final validations (lines 116 to 145)\<close>

text \<open>
  The statements at the end of the component's body, in the order of the source: the
  cache (lines 119 to 124), the limit (127 to 132), the options (135 to 137) and the two
  references (140 to 145). \<open>options\<close> is a list here, so of the test
  \<open>!Array.isArray(options) || options.length === 0\<close> the length remains.
\<close>

definition log :: "console_call \<Rightarrow> component \<Rightarrow> component" where
  "log c s = s\<lparr>console := console s @ [c]\<rparr>"

definition validate_coordinates :: "component \<Rightarrow> component" where
  "validate_coordinates s =
     (case toolbar_options_x_coordinates_ref s of
        Array xs \<Rightarrow> s
      | Undefined \<Rightarrow>
          (log (ConsoleError
             ''Error: toolbar_options_x_coordinates_ref.current is not initialized as an array.'') s)
          \<lparr>toolbar_options_x_coordinates_ref := Array []\<rparr>)"

definition validate_max :: "props \<Rightarrow> component \<Rightarrow> component" where
  "validate_max p s =
     (if MAX_OPTIONS_TO_DISPLAY p \<le> 0
      then log (ConsoleWarn
             ''Warning: MAX_OPTIONS_TO_DISPLAY should be greater than 0. Current value:''
             [MAX_OPTIONS_TO_DISPLAY p]) s
      else s)"

definition validate_options :: "props \<Rightarrow> component \<Rightarrow> component" where
  "validate_options p s =
     (if length (options p) = 0
      then log (ConsoleError
             ''Error: The 'options' array is either not initialized or empty.'') s
      else s)"

definition validate_refs :: "dom \<Rightarrow> component \<Rightarrow> component" where
  "validate_refs d s =
     (let s1 = (if wrapper_ref d = None
                then log (ConsoleWarn
                       ''Warning: wrapper_ref is not assigned to any DOM element.'' []) s
                else s)
      in if toolbar_options_ref d = None
         then log (ConsoleWarn
                ''Warning: toolbar_options_ref is not assigned to any DOM element.'' []) s1
         else s1)"

definition final_validations :: "props \<Rightarrow> dom \<Rightarrow> component \<Rightarrow> component" where
  "final_validations p d s =
     validate_refs d (validate_options p (validate_max p (validate_coordinates s)))"

subsection \<open>The component over time\<close>

text \<open>
  A function component's body runs at every render; the callbacks it hands to
  \<open>useLayoutEffect\<close> and to the resize listener run later, after the body has returned.
  In the body of the source the hooks only register their callbacks, so the statements
  of a render that touch the component are the final validations. An event carries the
  props and the browser's answers at the time it happens.
\<close>

datatype event =
  Render props dom
  | LayoutEffect props dom
  | Resize props dom

fun step :: "event \<Rightarrow> component \<Rightarrow> js_error + component" where
  "step (Render p d) s = Inr (final_validations p d s)"
| "step (LayoutEffect p d) s = layout_effect p d s"
| "step (Resize p d) s = on_resize p d s"

fun run :: "event list \<Rightarrow> component \<Rightarrow> js_error + component" where
  "run [] s = Inr s"
| "run (e # es) s = (case step e s of Inl err \<Rightarrow> Inl err | Inr s' \<Rightarrow> run es s')"

subsection \<open>The conditions the specification names\<close>

text \<open>
  The specification's condition for the child guard, in its own words: some option
  flagged as having children has a cached offset, at the same index, that is at least
  the candidate width less the gap. It is compared with \<open>is_child_reached\<close> below.
\<close>

definition child_overflows :: "props \<Rightarrow> real list \<Rightarrow> real \<Rightarrow> bool" where
  "child_overflows p xs w =
     (\<exists>i<length (options p). children (options p ! i) \<noteq> None \<and> i < length xs
        \<and> w - MIN_GAP_BETWEEN_SCREEN_AND_LAST_ICON p \<le> xs ! i)"

subsection \<open>The scenarios of the specification\<close>

text \<open>
  Five options with the cached offsets 50, 120, 200, 300, 420 and a gap of 10; in the
  second scenario the option at index 2 has children.
\<close>

definition scenario_offsets :: "real list" where
  "scenario_offsets = [50, 120, 200, 300, 420]"

definition plain_options :: "bulk_option list" where
  "plain_options =
     [BulkOption ''a'' None, BulkOption ''b'' None, BulkOption ''c'' None,
      BulkOption ''d'' None, BulkOption ''e'' None]"

definition child_options :: "bulk_option list" where
  "child_options =
     [BulkOption ''a'' None, BulkOption ''b'' None,
      BulkOption ''c'' (Some [BulkOption ''c1'' None]),
      BulkOption ''d'' None, BulkOption ''e'' None]"

definition scenario_props :: "bulk_option list \<Rightarrow> int \<Rightarrow> props" where
  "scenario_props os m =
     \<lparr>options = os, MAX_OPTIONS_TO_DISPLAY = m, MIN_GAP_BETWEEN_SCREEN_AND_LAST_ICON = 10\<rparr>"

definition scenario_dom :: "real \<Rightarrow> real option \<Rightarrow> dom" where
  "scenario_dom w cw =
     \<lparr>window_innerWidth = w, wrapper_ref = cw, toolbar_options_ref = None\<rparr>"

text \<open>Two rendered elements, at 100 to 140 and at 150 to 210.\<close>

definition scenario_rects :: "rect list" where
  "scenario_rects = [\<lparr>rect_x = 100, rect_width = 40\<rparr>, \<lparr>rect_x = 150, rect_width = 60\<rparr>]"

text \<open>
  The number of options a pass selects when \<open>n\<close> cached end points fit: a negative limit
  counts as 0.
\<close>

definition visible_count :: "props \<Rightarrow> nat \<Rightarrow> nat" where
  "visible_count p n = min n (min (nat (MAX_OPTIONS_TO_DISPLAY p)) (length (options p)))"

text \<open>The console calls that a pass of the final validations adds.\<close>

definition validation_calls :: "props \<Rightarrow> dom \<Rightarrow> component \<Rightarrow> console_call list" where
  "validation_calls p d s = drop (length (console s)) (console (final_validations p d s))"

section \<open>Properties\<close>

subsection \<open>The child guard\<close>

lemma array_some_iff:
  assumes "\<And>v i. f v i = Inr (g v i)"
  shows "array_some f k vs = Inr (\<exists>i<length vs. g (vs ! i) (k + i))"
  using assms
proof (induction vs arbitrary: k)
  case Nil
  then show ?case by simp
next
  case (Cons v vs)
  have step: "(\<exists>i<length (v # vs). g ((v # vs) ! i) (k + i))
      = (g v k \<or> (\<exists>i<length vs. g (vs ! i) (Suc k + i)))"
    by (auto simp: less_Suc_eq_0_disj)
  show ?case
  proof (cases "g v k")
    case True
    then show ?thesis using Cons.prems step by simp
  next
    case False
    then show ?thesis using Cons.IH [OF Cons.prems, of "Suc k"] Cons.prems step by simp
  qed
qed

lemma child_reached_at_Array:
  "child_reached_at p (Array xs) w option index =
     Inr (children option \<noteq> None \<and> index < length xs
          \<and> w - MIN_GAP_BETWEEN_SCREEN_AND_LAST_ICON p \<le> xs ! index)"
  by (simp add: child_reached_at_def js_ge_def js_index_def)

lemma is_child_reached_Array:
  "is_child_reached p (Array xs) w = Inr (child_overflows p xs w)"
  unfolding is_child_reached_def child_overflows_def
  using array_some_iff [where f = "child_reached_at p (Array xs) w" and k = 0
      and g = "\<lambda>option index. children option \<noteq> None \<and> index < length xs
          \<and> w - MIN_GAP_BETWEEN_SCREEN_AND_LAST_ICON p \<le> xs ! index" and vs = "options p"]
  by (simp add: child_reached_at_Array)

subsection \<open>The selection loop\<close>

text \<open>
  The loop appends the options from \<open>index\<close> up to \<open>visible_count\<close>, the smallest of the
  fitting count, the limit and the number of options.
\<close>

lemma select_options_drop_take:
  "select_options p n index sel = sel @ drop index (take (visible_count p n) (options p))"
proof (induction p n index sel rule: select_options.induct)
  case (1 p n index sel)
  let ?m = "visible_count p n"
  show ?case
  proof (cases "index < n \<and> \<not> (MAX_OPTIONS_TO_DISPLAY p \<le> int index \<or> length (options p) \<le> index)")
    case True
    then have lt: "index < ?m"
      unfolding visible_count_def by linarith
    have len: "index < length (take ?m (options p))"
      using lt by (simp add: visible_count_def)
    have "drop index (take ?m (options p))
        = take ?m (options p) ! index # drop (Suc index) (take ?m (options p))"
      by (rule Cons_nth_drop_Suc [symmetric, OF len])
    moreover have "take ?m (options p) ! index = options p ! index"
      using lt by simp
    ultimately show ?thesis
      using True "1.IH" by (simp add: select_options.simps [of p n index sel])
  next
    case False
    then have "?m \<le> index"
      by (auto simp: visible_count_def)
    then have "drop index (take ?m (options p)) = []"
      by simp
    then show ?thesis
      using False by (auto simp: select_options.simps [of p n index sel])
  qed
qed

lemma select_options_take:
  "select_options p n 0 [] = take (visible_count p n) (options p)"
  using select_options_drop_take [of p n 0 "[]"] by simp

lemma fit_pass_Array:
  "fit_pass p (Array xs) w =
     (if child_overflows p xs w then Inr None
      else Inr (Some (take (visible_count p (display_options_count p xs w)) (options p))))"
  by (simp add: fit_pass_def is_child_reached_Array select_options_take)

lemma update_Array:
  "update_display_options_on_window_resize p d (Array xs) =
     (if child_overflows p xs (wrapper_width_of d) then Inr None
      else Inr (Some (take (visible_count p (display_options_count p xs (wrapper_width_of d)))
                        (options p))))"
  by (simp add: update_display_options_on_window_resize_def fit_pass_Array)

lemma length_take_visible:
  "int (length (take (visible_count p n) (options p)))
     = min (max (MAX_OPTIONS_TO_DISPLAY p) 0) (min (int (length (options p))) (int n))"
  unfolding visible_count_def length_take by arith

subsection \<open>Evaluating the scenarios\<close>

lemma scenario_child_reached:
  "is_child_reached (scenario_props child_options m) (Array scenario_offsets) 205 = Inr True"
  by (simp add: is_child_reached_def child_reached_at_def js_ge_def js_index_def
      scenario_props_def child_options_def scenario_offsets_def)

lemma scenario_not_child_reached:
  "is_child_reached (scenario_props plain_options m) (Array scenario_offsets) w = Inr False"
  by (simp add: is_child_reached_def child_reached_at_def
      scenario_props_def plain_options_def)

lemma scenario_count:
  "display_options_count (scenario_props os m) scenario_offsets 250 = 3"
  by (simp add: display_options_count_def scenario_props_def scenario_offsets_def)

subsection \<open>Claims about the child guard\<close>

text \<open>
  C3: for every candidate width and every options sequence with cached offsets,
  \<open>is_child_reached\<close> returns true if and only if there is an option whose children
  marker is present and whose cached offset at the same index is at least the candidate
  width less the gap (the condition \<open>child_overflows\<close>); an option without children
  never contributes, whatever the cache holds.
\<close>

theorem is_child_reached_iff:
  "is_child_reached p (Array xs) w = Inr (child_overflows p xs w)
   \<and> (\<forall>cur option index. children option = None
          \<longrightarrow> child_reached_at p cur w option index = Inr False)"
  by (simp add: is_child_reached_Array child_reached_at_def)

theorem is_child_reached_iff_witness:
  "child_overflows (scenario_props child_options 3) scenario_offsets 205
   \<and> children (BulkOption ''a'' None) = None
   \<and> child_reached_at (scenario_props child_options 3) Undefined 205 (BulkOption ''a'' None) 0
       = Inr False"
  using is_child_reached_iff [of "scenario_props child_options 3" scenario_offsets 205]
    scenario_child_reached [of 3]
  by simp

text \<open>
  C6: when the offset cache is empty, or has no entry at the index of a child-bearing
  option, the guard's test of that option is false and raises nothing: the read beyond
  the array gives \<open>undefined\<close>, and the comparison with it is false. With an empty
  cache the whole guard is false.
\<close>

theorem absent_entry_not_overflowed:
  "(length xs \<le> index \<longrightarrow> child_reached_at p (Array xs) w option index = Inr False)
   \<and> is_child_reached p (Array []) w = Inr False"
  by (simp add: child_reached_at_Array is_child_reached_Array child_overflows_def)

theorem absent_entry_not_overflowed_witness:
  "length [50 :: real, 120] \<le> 2
   \<and> child_reached_at (scenario_props child_options 3) (Array [50, 120]) 205
         (BulkOption ''c'' (Some [BulkOption ''c1'' None])) 2 = Inr False"
  using absent_entry_not_overflowed [of "[50, 120]" 2 "scenario_props child_options 3" 205
      "BulkOption ''c'' (Some [BulkOption ''c1'' None])"]
  by simp

subsection \<open>Claims about the fit pass\<close>

text \<open>
  C1: for every options sequence, every cached offset sequence and every available
  width that is not negative and at which no child-bearing option overflows, the pass
  publishes a prefix of the options, in their order, whose length is the minimum of the
  limit \<open>MAX_OPTIONS_TO_DISPLAY\<close>, the number of options and the number of cached
  offsets not above the available width less the gap. The limit is one of the
  configuration, which the specification takes as a positive integer; the statement
  holds from 0 on.
\<close>

theorem fit_publishes_prefix:
  assumes "0 \<le> wrapper_width_of d"
    and "\<not> child_overflows p xs (wrapper_width_of d)"
    and "0 \<le> MAX_OPTIONS_TO_DISPLAY p"
  shows "\<exists>sel. update_display_options_on_window_resize p d (Array xs) = Inr (Some sel)
           \<and> prefix sel (options p)
           \<and> int (length sel)
               = min (MAX_OPTIONS_TO_DISPLAY p)
                   (min (int (length (options p)))
                      (int (display_options_count p xs (wrapper_width_of d))))"
proof -
  let ?sel = "take (visible_count p (display_options_count p xs (wrapper_width_of d))) (options p)"
  have "update_display_options_on_window_resize p d (Array xs) = Inr (Some ?sel)"
    using assms(2) by (simp add: update_Array)
  moreover have "prefix ?sel (options p)"
    by (rule take_is_prefix)
  moreover have "int (length ?sel)
      = min (MAX_OPTIONS_TO_DISPLAY p)
          (min (int (length (options p)))
             (int (display_options_count p xs (wrapper_width_of d))))"
    using assms(3) length_take_visible [of p "display_options_count p xs (wrapper_width_of d)"]
    by (simp add: max_def)
  ultimately show ?thesis
    by blast
qed

theorem fit_publishes_prefix_witness:
  "0 \<le> wrapper_width_of (scenario_dom 250 None)
   \<and> \<not> child_overflows (scenario_props plain_options 4) scenario_offsets
         (wrapper_width_of (scenario_dom 250 None))
   \<and> 0 \<le> MAX_OPTIONS_TO_DISPLAY (scenario_props plain_options 4)
   \<and> (\<exists>sel. update_display_options_on_window_resize (scenario_props plain_options 4)
              (scenario_dom 250 None) (Array scenario_offsets) = Inr (Some sel)
          \<and> prefix sel plain_options \<and> int (length sel) = 3)"
proof -
  have w: "wrapper_width_of (scenario_dom 250 None) = 250"
    by (simp add: wrapper_width_of_def scenario_dom_def)
  have pos: "0 \<le> wrapper_width_of (scenario_dom 250 None)"
    by (simp add: w)
  have no: "\<not> child_overflows (scenario_props plain_options 4) scenario_offsets
      (wrapper_width_of (scenario_dom 250 None))"
    using scenario_not_child_reached [of 4 250] is_child_reached_Array w by simp
  have m: "0 \<le> MAX_OPTIONS_TO_DISPLAY (scenario_props plain_options 4)"
    by (simp add: scenario_props_def)
  have len: "length plain_options = 5"
    by (simp add: plain_options_def)
  show ?thesis
    using fit_publishes_prefix [OF pos no m] pos no m w scenario_count [of plain_options 4] len
    by (simp add: scenario_props_def)
qed

text \<open>
  C2: if some option flagged as having children has a cached offset that is at least
  the available width less the gap, the pass returns without calling the setter, and
  the component, with the subset it published before, is left as it was.
\<close>

theorem child_overflow_retains:
  assumes "child_overflows p xs (wrapper_width_of d)"
    and "toolbar_options_x_coordinates_ref s = Array xs"
  shows "update_display_options_on_window_resize p d (Array xs) = Inr None
         \<and> on_resize p d s = Inr s"
  using assms by (simp add: on_resize_def update_Array)

theorem child_overflow_retains_witness:
  "child_overflows (scenario_props child_options 3) scenario_offsets
       (wrapper_width_of (scenario_dom 205 None))
   \<and> on_resize (scenario_props child_options 3) (scenario_dom 205 None)
        \<lparr>toolbar_options_x_coordinates_ref = Array scenario_offsets,
         options_to_be_visible = take 3 child_options, console = []\<rparr>
       = Inr \<lparr>toolbar_options_x_coordinates_ref = Array scenario_offsets,
         options_to_be_visible = take 3 child_options, console = []\<rparr>"
proof -
  have w: "wrapper_width_of (scenario_dom 205 None) = 205"
    by (simp add: wrapper_width_of_def scenario_dom_def)
  have ov: "child_overflows (scenario_props child_options 3) scenario_offsets
       (wrapper_width_of (scenario_dom 205 None))"
    using scenario_child_reached [of 3] is_child_reached_Array w by simp
  show ?thesis
    using child_overflow_retains [OF ov, of
        "\<lparr>toolbar_options_x_coordinates_ref = Array scenario_offsets,
         options_to_be_visible = take 3 child_options, console = []\<rparr>"] ov
    by simp
qed

text \<open>
  C10: with no options the guard is false at every width, whatever the cache holds, so
  a pass over a cached sequence calls the setter, with the empty list, and does not
  retain the subset published before.
\<close>

theorem empty_options_publish:
  assumes "options p = []"
  shows "is_child_reached p cur w = Inr False
         \<and> update_display_options_on_window_resize p d (Array xs) = Inr (Some [])
         \<and> (toolbar_options_x_coordinates_ref s = Array xs
              \<longrightarrow> on_resize p d s = Inr (s\<lparr>options_to_be_visible := []\<rparr>))"
  using assms
  by (simp add: is_child_reached_def on_resize_def update_Array child_overflows_def)

theorem empty_options_publish_witness:
  "options (scenario_props [] 3) = []
   \<and> is_child_reached (scenario_props [] 3) Undefined 250 = Inr False
   \<and> on_resize (scenario_props [] 3) (scenario_dom 250 None)
        \<lparr>toolbar_options_x_coordinates_ref = Array scenario_offsets,
         options_to_be_visible = plain_options, console = []\<rparr>
       = Inr \<lparr>toolbar_options_x_coordinates_ref = Array scenario_offsets,
         options_to_be_visible = [], console = []\<rparr>"
proof -
  have e: "options (scenario_props [] 3) = []"
    by (simp add: scenario_props_def)
  show ?thesis
    using empty_options_publish [OF e, of Undefined 250 "scenario_dom 250 None" scenario_offsets
        "\<lparr>toolbar_options_x_coordinates_ref = Array scenario_offsets,
         options_to_be_visible = plain_options, console = []\<rparr>"] e
    by simp
qed

text \<open>
  C9: the pass runs at the client width of the wrapper element when the wrapper
  reference is bound, whatever the window's width is, and at the window's inner width
  when it is not.
\<close>

theorem width_source:
  "(wrapper_ref d = Some clientWidth
      \<longrightarrow> update_display_options_on_window_resize p d cur = fit_pass p cur clientWidth)
   \<and> (wrapper_ref d = None
      \<longrightarrow> update_display_options_on_window_resize p d cur
            = fit_pass p cur (window_innerWidth d))"
  by (simp add: update_display_options_on_window_resize_def wrapper_width_of_def)

theorem width_source_witness:
  "wrapper_ref (scenario_dom 1000 (Some 250)) = Some 250
   \<and> update_display_options_on_window_resize (scenario_props plain_options 3)
        (scenario_dom 1000 (Some 250)) (Array scenario_offsets)
       = fit_pass (scenario_props plain_options 3) (Array scenario_offsets) 250
   \<and> wrapper_ref (scenario_dom 1000 None) = None
   \<and> update_display_options_on_window_resize (scenario_props plain_options 3)
        (scenario_dom 1000 None) (Array scenario_offsets)
       = fit_pass (scenario_props plain_options 3) (Array scenario_offsets) 1000"
  using width_source [of "scenario_dom 1000 (Some 250)" 250 "scenario_props plain_options 3"
      "Array scenario_offsets"]
    width_source [of "scenario_dom 1000 None" 0 "scenario_props plain_options 3"
      "Array scenario_offsets"]
  by (simp add: scenario_dom_def)

subsection \<open>Claims about the layout effect\<close>

lemma map_end_points_later:
  "0 < k \<Longrightarrow> map_end_points gap k first_x rs
     = map (\<lambda>r. rect_x r + rect_width r - first_x + gap) rs"
  by (induction rs arbitrary: k) (simp_all add: Let_def)

lemma map_end_points_first:
  "map_end_points gap 0 first_x rs
     = map (\<lambda>r. rect_x r + rect_width r - rect_x (hd rs) + gap) rs"
  by (cases rs) (simp_all add: Let_def map_end_points_later)

lemma client_rects_end_point_Some:
  "toolbar_options_ref d = Some rs \<Longrightarrow>
   client_rects_end_point p d
     = map (\<lambda>r. rect_x r + rect_width r - rect_x (hd rs)
              + MIN_GAP_BETWEEN_SCREEN_AND_LAST_ICON p) rs"
  by (simp add: client_rects_end_point_def map_end_points_first)

text \<open>
  C4: for every sequence of rendered elements the capture computes one offset per
  element, in the order of the elements, and the offset of each element is its x
  position plus its width, less the x position of the first element, plus the gap.
\<close>

theorem end_points_aligned:
  assumes "toolbar_options_ref d = Some rs"
  shows "length (client_rects_end_point p d) = length rs
         \<and> (\<forall>i<length rs. client_rects_end_point p d ! i
                = (rect_x (rs ! i) + rect_width (rs ! i)) - rect_x (rs ! 0)
                  + MIN_GAP_BETWEEN_SCREEN_AND_LAST_ICON p)"
proof (cases rs)
  case Nil
  then show ?thesis
    using assms by (simp add: client_rects_end_point_Some)
next
  case (Cons r rs')
  then have "hd rs = rs ! 0"
    by simp
  then show ?thesis
    using assms by (simp add: client_rects_end_point_Some)
qed

theorem end_points_aligned_witness:
  "toolbar_options_ref \<lparr>window_innerWidth = 250, wrapper_ref = None,
       toolbar_options_ref = Some scenario_rects\<rparr> = Some scenario_rects
   \<and> length (client_rects_end_point (scenario_props plain_options 3)
         \<lparr>window_innerWidth = 250, wrapper_ref = None,
          toolbar_options_ref = Some scenario_rects\<rparr>) = 2
   \<and> client_rects_end_point (scenario_props plain_options 3)
         \<lparr>window_innerWidth = 250, wrapper_ref = None,
          toolbar_options_ref = Some scenario_rects\<rparr> ! 1 = 120"
proof -
  let ?d = "\<lparr>window_innerWidth = 250, wrapper_ref = None,
       toolbar_options_ref = Some scenario_rects\<rparr>"
  have h: "toolbar_options_ref ?d = Some scenario_rects"
    by simp
  have len: "length scenario_rects = 2"
    by (simp add: scenario_rects_def)
  from end_points_aligned [OF h, of "scenario_props plain_options 3"]
  have a: "length (client_rects_end_point (scenario_props plain_options 3) ?d) = 2"
    and b: "\<forall>i<2. client_rects_end_point (scenario_props plain_options 3) ?d ! i
        = (rect_x (scenario_rects ! i) + rect_width (scenario_rects ! i))
          - rect_x (scenario_rects ! 0)
          + MIN_GAP_BETWEEN_SCREEN_AND_LAST_ICON (scenario_props plain_options 3)"
    by (simp_all add: len)
  from b have "client_rects_end_point (scenario_props plain_options 3) ?d ! 1
      = (rect_x (scenario_rects ! 1) + rect_width (scenario_rects ! 1))
          - rect_x (scenario_rects ! 0)
          + MIN_GAP_BETWEEN_SCREEN_AND_LAST_ICON (scenario_props plain_options 3)"
    by simp
  then have "client_rects_end_point (scenario_props plain_options 3) ?d ! 1 = 120"
    by (simp add: scenario_rects_def scenario_props_def)
  then show ?thesis
    using a h by simp
qed

text \<open>
  C5: once a capture has left a cache that is not empty, a further capture, whatever
  the props and the rendered elements are by then, leaves the component as it is; and
  a capture changes the cache only when the cache was empty before it.
\<close>

theorem capture_idempotent:
  assumes "layout_effect p d s = Inr s1"
    and "toolbar_options_x_coordinates_ref s1 \<noteq> Array []"
  shows "layout_effect p' d' s1 = Inr s1
         \<and> (toolbar_options_x_coordinates_ref s1 \<noteq> toolbar_options_x_coordinates_ref s
              \<longrightarrow> toolbar_options_x_coordinates_ref s = Array [])"
proof (cases "toolbar_options_x_coordinates_ref s")
  case Undefined
  then show ?thesis
    using assms by (simp add: layout_effect_def)
next
  case (Array xs)
  show ?thesis
  proof (cases "xs = []")
    case True
    then have s1: "s1 = s\<lparr>toolbar_options_x_coordinates_ref := Array (client_rects_end_point p d)\<rparr>"
      using assms(1) Array by (simp add: layout_effect_def)
    then have "client_rects_end_point p d \<noteq> []"
      using assms(2) by auto
    then show ?thesis
      using s1 Array True by (simp add: layout_effect_def)
  next
    case False
    then have "s1 = s"
      using assms(1) Array by (simp add: layout_effect_def)
    then show ?thesis
      using Array False by (simp add: layout_effect_def)
  qed
qed

theorem capture_idempotent_witness:
  "layout_effect (scenario_props plain_options 3)
       \<lparr>window_innerWidth = 250, wrapper_ref = None, toolbar_options_ref = Some scenario_rects\<rparr>
       \<lparr>toolbar_options_x_coordinates_ref = Array [], options_to_be_visible = [], console = []\<rparr>
     = Inr \<lparr>toolbar_options_x_coordinates_ref = Array [50, 120], options_to_be_visible = [],
            console = []\<rparr>
   \<and> layout_effect (scenario_props plain_options 3)
       \<lparr>window_innerWidth = 250, wrapper_ref = None,
        toolbar_options_ref = Some [\<lparr>rect_x = 0, rect_width = 7\<rparr>]\<rparr>
       \<lparr>toolbar_options_x_coordinates_ref = Array [50, 120], options_to_be_visible = [],
        console = []\<rparr>
     = Inr \<lparr>toolbar_options_x_coordinates_ref = Array [50, 120], options_to_be_visible = [],
            console = []\<rparr>"
proof -
  let ?d = "\<lparr>window_innerWidth = 250, wrapper_ref = None,
      toolbar_options_ref = Some scenario_rects\<rparr>"
  let ?s = "\<lparr>toolbar_options_x_coordinates_ref = Array [], options_to_be_visible = [],
      console = []\<rparr>"
  let ?s1 = "\<lparr>toolbar_options_x_coordinates_ref = Array [50, 120], options_to_be_visible = [],
      console = []\<rparr>"
  have first: "layout_effect (scenario_props plain_options 3) ?d ?s = Inr ?s1"
    by (simp add: layout_effect_def client_rects_end_point_def scenario_rects_def
        scenario_props_def Let_def)
  have filled: "toolbar_options_x_coordinates_ref ?s1 \<noteq> Array []"
    by simp
  show ?thesis
    using capture_idempotent [OF first filled, of "scenario_props plain_options 3"
        "\<lparr>window_innerWidth = 250, wrapper_ref = None,
          toolbar_options_ref = Some [\<lparr>rect_x = 0, rect_width = 7\<rparr>]\<rparr>"] first
    by simp
qed

subsection \<open>Claims about the final validations\<close>

lemma console_validate_coordinates:
  "console (validate_coordinates s)
     = console s @ (case toolbar_options_x_coordinates_ref s of
          Undefined \<Rightarrow> [ConsoleError
            ''Error: toolbar_options_x_coordinates_ref.current is not initialized as an array.'']
        | Array xs \<Rightarrow> [])"
  by (simp add: validate_coordinates_def log_def split: ref_current.splits)

lemma console_validate_max:
  "console (validate_max p s)
     = console s @ (if MAX_OPTIONS_TO_DISPLAY p \<le> 0
          then [ConsoleWarn
            ''Warning: MAX_OPTIONS_TO_DISPLAY should be greater than 0. Current value:''
            [MAX_OPTIONS_TO_DISPLAY p]]
          else [])"
  by (simp add: validate_max_def log_def)

lemma console_validate_options:
  "\<exists>cs. console (validate_options p s) = console s @ cs"
  by (simp add: validate_options_def log_def)

lemma console_validate_refs:
  "\<exists>cs. console (validate_refs d s) = console s @ cs"
  by (simp add: validate_refs_def log_def Let_def)

lemma validation_calls_eq:
  "\<exists>cs. validation_calls p d s
     = (case toolbar_options_x_coordinates_ref s of
          Undefined \<Rightarrow> [ConsoleError
            ''Error: toolbar_options_x_coordinates_ref.current is not initialized as an array.'']
        | Array xs \<Rightarrow> [])
       @ (if MAX_OPTIONS_TO_DISPLAY p \<le> 0
          then [ConsoleWarn
            ''Warning: MAX_OPTIONS_TO_DISPLAY should be greater than 0. Current value:''
            [MAX_OPTIONS_TO_DISPLAY p]]
          else [])
       @ cs"
proof -
  let ?s1 = "validate_coordinates s"
  let ?s2 = "validate_max p ?s1"
  let ?s3 = "validate_options p ?s2"
  obtain cs3 where c3: "console ?s3 = console ?s2 @ cs3"
    using console_validate_options by blast
  obtain cs4 where c4: "console (validate_refs d ?s3) = console ?s3 @ cs4"
    using console_validate_refs by blast
  have "console (final_validations p d s)
      = console s @ (case toolbar_options_x_coordinates_ref s of
          Undefined \<Rightarrow> [ConsoleError
            ''Error: toolbar_options_x_coordinates_ref.current is not initialized as an array.'']
        | Array xs \<Rightarrow> [])
       @ (if MAX_OPTIONS_TO_DISPLAY p \<le> 0
          then [ConsoleWarn
            ''Warning: MAX_OPTIONS_TO_DISPLAY should be greater than 0. Current value:''
            [MAX_OPTIONS_TO_DISPLAY p]]
          else [])
       @ (cs3 @ cs4)"
    unfolding final_validations_def c4 c3 console_validate_max console_validate_coordinates
    by simp
  then show ?thesis
    unfolding validation_calls_def by simp
qed

lemma cache_validate_coordinates:
  "toolbar_options_x_coordinates_ref (validate_coordinates s)
     = (case toolbar_options_x_coordinates_ref s of
          Undefined \<Rightarrow> Array [] | Array xs \<Rightarrow> Array xs)"
  by (simp add: validate_coordinates_def log_def split: ref_current.splits)

lemma cache_final_validations:
  "toolbar_options_x_coordinates_ref (final_validations p d s)
     = (case toolbar_options_x_coordinates_ref s of
          Undefined \<Rightarrow> Array [] | Array xs \<Rightarrow> Array xs)"
  by (simp add: final_validations_def validate_refs_def validate_options_def validate_max_def
      log_def Let_def cache_validate_coordinates)





subsection \<open>The cache over the component's life\<close>

lemma step_keeps_array:
  assumes "toolbar_options_x_coordinates_ref s = Array xs"
  shows "\<exists>s' ys. step e s = Inr s' \<and> toolbar_options_x_coordinates_ref s' = Array ys"
proof (cases e)
  case (Render p d)
  then show ?thesis
    using assms by (simp add: cache_final_validations)
next
  case (LayoutEffect p d)
  then show ?thesis
    using assms by (simp add: layout_effect_def)
next
  case (Resize p d)
  then show ?thesis
    using assms by (simp add: on_resize_def update_Array)
qed

lemma run_keeps_array:
  "toolbar_options_x_coordinates_ref s = Array xs \<Longrightarrow>
   \<exists>s' ys. run es s = Inr s' \<and> toolbar_options_x_coordinates_ref s' = Array ys"
proof (induction es arbitrary: s xs)
  case Nil
  then show ?case by simp
next
  case (Cons e es)
  obtain s1 ys where s1: "step e s = Inr s1" "toolbar_options_x_coordinates_ref s1 = Array ys"
    using step_keeps_array [OF Cons.prems] by blast
  show ?case
    using Cons.IH [OF s1(2)] s1(1) by simp
qed

lemma array_some_Undefined:
  "array_some (child_reached_at p Undefined w) k vs \<noteq> Inr True"
  by (induction vs arbitrary: k) (simp_all add: child_reached_at_def)

lemma fit_pass_Undefined:
  "fit_pass p Undefined w = Inl TypeError"
proof (cases "is_child_reached p Undefined w")
  case (Inl e)
  then show ?thesis
    by (cases e) (simp add: fit_pass_def)
next
  case (Inr b)
  then have "b = False"
    using array_some_Undefined [of p w 0 "options p"] by (auto simp: is_child_reached_def)
  then show ?thesis
    using Inr by (simp add: fit_pass_def)
qed

text \<open>
  C8: if the offset cache is not an array, the validation pass sets it to the empty
  array and logs the error, as the first call of the pass. Since the validations are
  part of every render and the layout effect and the resize listener run only after a
  render, every capture and every fit pass of a component's life, whatever the events
  and their order after the first render, finds an array in the cache and ends without
  a \<open>TypeError\<close>; a fit pass over a cache that is not an array would end with one.
\<close>

theorem cache_coerced_before_fit:
  "(toolbar_options_x_coordinates_ref s = Undefined \<longrightarrow>
      toolbar_options_x_coordinates_ref (final_validations p d s) = Array []
      \<and> take 1 (validation_calls p d s) = [ConsoleError
            ''Error: toolbar_options_x_coordinates_ref.current is not initialized as an array.''])
   \<and> (\<exists>s' ys. run (Render p d # es) s = Inr s'
          \<and> toolbar_options_x_coordinates_ref s' = Array ys)
   \<and> on_resize p' d' (s\<lparr>toolbar_options_x_coordinates_ref := Undefined\<rparr>) = Inl TypeError"
proof -
  obtain cs where calls: "validation_calls p d s
     = (case toolbar_options_x_coordinates_ref s of
          Undefined \<Rightarrow> [ConsoleError
            ''Error: toolbar_options_x_coordinates_ref.current is not initialized as an array.'']
        | Array xs \<Rightarrow> [])
       @ (if MAX_OPTIONS_TO_DISPLAY p \<le> 0
          then [ConsoleWarn
            ''Warning: MAX_OPTIONS_TO_DISPLAY should be greater than 0. Current value:''
            [MAX_OPTIONS_TO_DISPLAY p]]
          else [])
       @ cs"
    using validation_calls_eq by blast
  have first: "toolbar_options_x_coordinates_ref s = Undefined \<longrightarrow>
      toolbar_options_x_coordinates_ref (final_validations p d s) = Array []
      \<and> take 1 (validation_calls p d s) = [ConsoleError
            ''Error: toolbar_options_x_coordinates_ref.current is not initialized as an array.'']"
    by (simp add: cache_final_validations calls)
  obtain zs where "toolbar_options_x_coordinates_ref (final_validations p d s) = Array zs"
    by (cases "toolbar_options_x_coordinates_ref s") (simp_all add: cache_final_validations)
  then have life: "\<exists>s' ys. run (Render p d # es) s = Inr s'
      \<and> toolbar_options_x_coordinates_ref s' = Array ys"
    using run_keeps_array [of "final_validations p d s" zs es] by simp
  have "on_resize p' d' (s\<lparr>toolbar_options_x_coordinates_ref := Undefined\<rparr>) = Inl TypeError"
    by (simp add: on_resize_def update_display_options_on_window_resize_def fit_pass_Undefined)
  then show ?thesis
    using first life by blast
qed

theorem cache_coerced_before_fit_witness:
  "toolbar_options_x_coordinates_ref
       \<lparr>toolbar_options_x_coordinates_ref = Undefined, options_to_be_visible = [],
        console = []\<rparr> = Undefined
   \<and> toolbar_options_x_coordinates_ref
       (final_validations (scenario_props plain_options 3) (scenario_dom 250 None)
          \<lparr>toolbar_options_x_coordinates_ref = Undefined, options_to_be_visible = [],
           console = []\<rparr>) = Array []
   \<and> take 1 (validation_calls (scenario_props plain_options 3) (scenario_dom 250 None)
          \<lparr>toolbar_options_x_coordinates_ref = Undefined, options_to_be_visible = [],
           console = []\<rparr>)
       = [ConsoleError
            ''Error: toolbar_options_x_coordinates_ref.current is not initialized as an array.'']"
  using cache_coerced_before_fit [of
      "\<lparr>toolbar_options_x_coordinates_ref = Undefined, options_to_be_visible = [],
        console = []\<rparr>" "scenario_props plain_options 3" "scenario_dom 250 None" "[]"
      "scenario_props plain_options 3" "scenario_dom 250 None"]
  by simp

end
